theory Spec2Isabelle
  imports Complex_Main "HOL-Library.Sublist"
begin

section \<open>Strings and values of the host language\<close>

text \<open>
  Topic strings and item names are modelled as \<^typ>\<open>string\<close>, each character standing for
  one code unit below 256 (Latin-1). \<open>toLowerCase\<close> is the built-in lower-casing on that
  range: the capitals A to Z and the accented capitals U+00C0 to U+00DE (the multiplication
  sign U+00D7 apart) move up by 32, every other code unit stays.
\<close>

definition toLowerChar :: "char \<Rightarrow> char" where
  "toLowerChar c =
     (let n = (of_char c :: nat)
      in if (65 \<le> n \<and> n \<le> 90) \<or> (192 \<le> n \<and> n \<le> 222 \<and> n \<noteq> 215)
         then char_of (n + 32) else c)"

definition toLowerCase :: "string \<Rightarrow> string" where
  "toLowerCase s = map toLowerChar s"

text \<open>\<open>str_includes s p\<close> is \<open>s.includes(p)\<close>: the pattern occurs as a contiguous run of \<open>s\<close>.\<close>

fun str_includes :: "string \<Rightarrow> string \<Rightarrow> bool" where
  "str_includes [] p = (p = [])"
| "str_includes (c # cs) p = (prefix p (c # cs) \<or> str_includes cs p)"

section \<open>Event categories and the topic classifier\<close>

datatype EventCategory =
    Motion | Face | Person | Vehicle | Animal | LicensePlate | Tamper | Analytics
  | Ptz | Audio | Recording | DigitalInput | Relay | Device | Unknown

definition categorizeEvent :: "string \<Rightarrow> EventCategory" where
  "categorizeEvent topic =
     (let topicLower = toLowerCase topic in
      if str_includes topicLower ''facedetect'' \<or> str_includes topicLower ''facedetection''
      then Face
      else if str_includes topicLower ''peopledetect''
              \<or> str_includes topicLower ''persondetect''
              \<or> str_includes topicLower ''humandetect''
      then Person
      else if str_includes topicLower ''vehicledetect''
              \<or> str_includes topicLower ''cardetect''
      then Vehicle
      else if str_includes topicLower ''dogcatdetect''
              \<or> str_includes topicLower ''animaldetect''
              \<or> str_includes topicLower ''petdetect''
      then Animal
      else if str_includes topicLower ''licenseplate'' \<or> str_includes topicLower ''anpr''
      then LicensePlate
      else if str_includes topicLower ''motiondetect''
              \<or> str_includes topicLower ''cellmotion''
              \<or> str_includes topicLower ''linedetect''
              \<or> str_includes topicLower ''fielddetect''
              \<or> str_includes topicLower ''motionalarm''
      then Motion
      else if str_includes topicLower ''imagetooblurry''
              \<or> str_includes topicLower ''imagetoodark''
              \<or> str_includes topicLower ''imagetoobright''
              \<or> str_includes topicLower ''globalscenechange''
              \<or> str_includes topicLower ''tamper''
      then Tamper
      else if str_includes topicLower ''audioanalytics''
              \<or> str_includes topicLower ''audiodetect''
      then Audio
      else if str_includes topicLower ''digitalinput''
              \<or> str_includes topicLower ''trigger/digitalinput''
      then DigitalInput
      else if str_includes topicLower ''relay'' \<or> str_includes topicLower ''relayoutput''
      then Relay
      else if str_includes topicLower ''ptzcontroller''
              \<or> str_includes topicLower ''ptzstatus''
      then Ptz
      else if str_includes topicLower ''recording'' then Recording
      else if str_includes topicLower ''videoanalytics''
              \<or> str_includes topicLower ''analytics''
      then Analytics
      else if str_includes topicLower ''device/'' then Device
      else Unknown)"

text \<open>
  The specification's reading of the classifier: an ordered table of pattern groups, the
  first group with a pattern occurring in the lower-cased topic deciding the category. The
  patterns of each group are those the \<open>if\<close> chain of \<open>categorizeEvent\<close> tests.
\<close>

definition patternGroups :: "(EventCategory \<times> string list) list" where
  "patternGroups =
     [(Face, [''facedetect'', ''facedetection'']),
      (Person, [''peopledetect'', ''persondetect'', ''humandetect'']),
      (Vehicle, [''vehicledetect'', ''cardetect'']),
      (Animal, [''dogcatdetect'', ''animaldetect'', ''petdetect'']),
      (LicensePlate, [''licenseplate'', ''anpr'']),
      (Motion, [''motiondetect'', ''cellmotion'', ''linedetect'', ''fielddetect'',
                ''motionalarm'']),
      (Tamper, [''imagetooblurry'', ''imagetoodark'', ''imagetoobright'',
                ''globalscenechange'', ''tamper'']),
      (Audio, [''audioanalytics'', ''audiodetect'']),
      (DigitalInput, [''digitalinput'', ''trigger/digitalinput'']),
      (Relay, [''relay'', ''relayoutput'']),
      (Ptz, [''ptzcontroller'', ''ptzstatus'']),
      (Recording, [''recording'']),
      (Analytics, [''videoanalytics'', ''analytics'']),
      (Device, [''device/''])]"

definition groupMatches :: "string \<Rightarrow> EventCategory \<times> string list \<Rightarrow> bool" where
  "groupMatches topicLower g = list_ex (str_includes topicLower) (snd g)"

definition classifySpec :: "string \<Rightarrow> EventCategory" where
  "classifySpec topic =
     (case find (groupMatches (toLowerCase topic)) patternGroups of
        Some g \<Rightarrow> fst g
      | None \<Rightarrow> Unknown)"

section \<open>Notification messages\<close>

text \<open>
  A \<open>Date\<close> holds a time value in milliseconds since the epoch, or is an Invalid Date.
  The constructor applied to a number clips: beyond 8.64e15 ms in magnitude the result is
  an Invalid Date. Time values are whole numbers of milliseconds; the model computes with
  them as integers, which is what double arithmetic does below 2^53.
\<close>

datatype date = Date int | InvalidDate

definition newDate :: "int \<Rightarrow> date" where
  "newDate t = (if \<bar>t\<bar> \<le> 8640000000000000 then Date t else InvalidDate)"

text \<open>
  A time field as a response or a message carries it, by what \<open>toDate\<close> and a truthiness
  test can tell apart: a Date object; a string or number, given with its truthiness and
  with the Date the constructor builds from it; any other truthy value; or nothing
  (undefined, null).
\<close>

datatype rawTime = RawDate date | RawPrimitive bool date | RawObject | RawAbsent


text \<open>\<open>toDate now v\<close>, with \<open>now\<close> the reading of the clock that \<open>new Date()\<close> would take.\<close>

definition toDate :: "int \<Rightarrow> rawTime \<Rightarrow> date" where
  "toDate now v = (case v of RawDate d \<Rightarrow> d | RawPrimitive _ d \<Rightarrow> d | _ \<Rightarrow> Date now)"

text \<open>
  The value of a simple item is of unknown type in the source. The extractors compare it
  with \<open>true\<close>, \<open>'true'\<close> and \<open>'1'\<close> and convert it with \<open>String\<close> and \<open>Number\<close>;
  so a value is a boolean, a string, or anything else, carried with the text \<open>String\<close>
  gives for it. \<open>Number\<close> is the platform's conversion and stays uninterpreted:
  \<open>NumberOf v\<close> is the number it yields for \<open>v\<close>.
\<close>

datatype jsvalue = VBool bool | VStr string | VOther string



record SimpleItem =
  name :: "string option"
  value' :: jsvalue

datatype 'a oneOrMany = One 'a | Many "'a list"

fun asArray :: "'a oneOrMany \<Rightarrow> 'a list" where
  "asArray (Many xs) = xs"
| "asArray (One x) = [x]"

record ItemList =
  simpleItem :: "SimpleItem oneOrMany option"

record Message =
  utcTime :: rawTime
  source :: "ItemList option"
  key :: "ItemList option"
  data :: "ItemList option"

text \<open>\<open>topic\<close> is \<open>message.topic?._\<close>: the topic path, when the message has one.\<close>

record NotificationMessage =
  topic :: "string option"
  message :: "Message option"

section \<open>Event extractors\<close>

record EventData =
  rule :: "string option"
  timestamp :: "date option"



text \<open>\<open>(item.name ?? '').toLowerCase()\<close>\<close>

definition itemName :: "SimpleItem \<Rightarrow> string" where
  "itemName item = toLowerCase (case name item of None \<Rightarrow> [] | Some n \<Rightarrow> n)"










section \<open>The subscription session\<close>

subsection \<open>Responses, failures and the world outside\<close>

record Times =
  currentTime :: date
  terminationTime :: date

type_synonym url = string

record ReferenceParameters =
  subscriptionId :: "string option"

record SubscriptionReference =
  address :: url
  referenceParameters :: "ReferenceParameters option"

record PullPointSubscription = Times +
  subscriptionReference :: SubscriptionReference

record PullMessagesResult = Times +
  notificationMessage :: "NotificationMessage list"

text \<open>
  What \<open>linerase\<close> hands back for a response. \<open>linerase\<close> itself is not part of the
  sources at hand: a response that is present is taken to come back as an object whose
  fields may be absent, an absent one as \<open>undefined\<close>. \<open>rawAddress\<close> is the address when
  it is a string.
\<close>

record RawTimes =
  rawCurrentTime :: rawTime
  rawTerminationTime :: rawTime

record RawSubscription = RawTimes +
  rawAddress :: "string option"
  rawReferenceParameters :: "ReferenceParameters option"

record RawPullMessages = RawTimes +
  rawNotificationMessage :: "NotificationMessage oneOrMany option"

record SoapData =
  createPullPointSubscriptionResponse :: "RawSubscription option"
  pullMessagesResponse :: "RawPullMessages option"
  renewResponse :: "RawTimes option"

text \<open>
  A thrown value: \<open>Error msg\<close> is \<open>new Error(msg)\<close>, an object without a \<open>code\<close>
  property; \<open>External c\<close> is whatever the transport or the URL parser raises, with the
  string under its \<open>code\<close> property when it has one.
\<close>

datatype thrown = Error string | External "string option"

definition NoActiveSubscription :: thrown where
  "NoActiveSubscription = Error ''No active subscription. Call createPullPointSubscription first.''"

definition TypeError :: thrown where
  "TypeError = Error ''Cannot read properties of undefined''"

definition RETRY_ERROR_CODES :: "string list" where
  "RETRY_ERROR_CODES =
     [''ECONNREFUSED'', ''ECONNRESET'', ''ETIMEDOUT'', ''ENETUNREACH'', ''EHOSTUNREACH'']"

definition MAX_RECONNECT_MS :: rat where
  "MAX_RECONNECT_MS = 2 * 60 * 1000"

definition DEFAULT_TERMINATION_TIME :: string where
  "DEFAULT_TERMINATION_TIME = ''PT2M''"

definition DEFAULT_PULL_TIMEOUT :: string where
  "DEFAULT_PULL_TIMEOUT = ''PT1M''"

definition DEFAULT_MESSAGE_LIMIT :: int where
  "DEFAULT_MESSAGE_LIMIT = 10"

text \<open>
  The world outside the session is an oracle: the \<open>k\<close>-th reading of the clock, the outcome
  of the \<open>k\<close>-th request, and the URL parser of the connection (which throws on a string
  that is no URL). The session counts its readings and requests, and keeps a log of what
  it does to the world: clock readings, requests (the operation, the URL addressed when
  it is not the service's own, the subscription id threaded into the header), emitted
  signals and sleeps. A listener, when one is attached, is taken to return normally.
\<close>

record env =
  clock :: "nat \<Rightarrow> int"
  net :: "nat \<Rightarrow> thrown + SoapData"
  parseUrl :: "string \<Rightarrow> thrown + url"

datatype operation =
    CreatePullPointSubscription string
  | PullMessages string int
  | Renew string
  | Unsubscribe

datatype signal = Event NotificationMessage | ErrorSignal thrown

datatype effect =
    Now int
  | Request operation "url option" "string option"
  | Emit signal
  | Sleep rat

text \<open>
  The fields of the class \<open>Events\<close>; \<open>terminationTime'\<close> is its private
  \<open>terminationTime\<close>, the locally corrected deadline. The cached event properties play
  no part in what follows and are left out. \<open>errorListeners\<close> is what the class inherits
  from \<open>EventEmitter\<close> that the loop depends on: the number of listeners attached to
  the \<open>error\<close> signal, none in a new emitter. \<open>observedCategories\<close> is a \<open>Set\<close>, kept as
  the list of its elements in insertion order. \<open>reconnectMs\<close> is a rational: the delays
  the loop reaches, \<open>10 * 1.5 ^ k\<close> below the ceiling and the ceiling itself, are exact
  in double arithmetic. \<open>ticks\<close>, \<open>calls\<close> and \<open>effects\<close> are the bookkeeping of the
  model: how often the clock was read, how many requests were made, and the log.
\<close>

record Events =
  subscription :: "PullPointSubscription option"
  terminationTime' :: "date option"
  shouldPoll :: bool
  reconnectMs :: rat
  messageLimit :: int
  observedCategories :: "EventCategory list"
  errorListeners :: nat
  ticks :: nat
  calls :: nat
  effects :: "effect list"

definition newEvents :: Events where
  "newEvents = \<lparr> subscription = None, terminationTime' = None, shouldPoll = False,
                 reconnectMs = 10, messageLimit = DEFAULT_MESSAGE_LIMIT,
                 observedCategories = [], errorListeners = 0, ticks = 0, calls = 0,
                 effects = [] \<rparr>"

definition readClock :: "env \<Rightarrow> Events \<Rightarrow> int \<times> Events" where
  "readClock e s =
     (let t = clock e (ticks s)
      in (t, s\<lparr> ticks := Suc (ticks s), effects := effects s @ [Now t] \<rparr>))"

definition request ::
  "env \<Rightarrow> operation \<Rightarrow> url option \<Rightarrow> string option \<Rightarrow> Events
     \<Rightarrow> (thrown + SoapData) \<times> Events"
where
  "request e op' target sid s =
     (net e (calls s),
      s\<lparr> calls := Suc (calls s), effects := effects s @ [Request op' target sid] \<rparr>)"

text \<open>\<open>on('error', listener)\<close>, inherited from \<open>EventEmitter\<close>.\<close>

definition onError :: "Events \<Rightarrow> Events" where
  "onError s = s\<lparr> errorListeners := Suc (errorListeners s) \<rparr>"

text \<open>
  \<open>emit('event', message)\<close> calls the listeners attached, if any, and returns.
  \<open>emit('error', error)\<close> does the same when an \<open>error\<close> listener is attached; when none
  is, the emitter throws: the payload itself when it is an Error object, as the failures
  of this module and of its transport are.
\<close>

definition emitEvent :: "NotificationMessage \<Rightarrow> Events \<Rightarrow> Events" where
  "emitEvent msg s = s\<lparr> effects := effects s @ [Emit (Event msg)] \<rparr>"

definition emitError :: "thrown \<Rightarrow> Events \<Rightarrow> thrown + Events" where
  "emitError err s =
     (if errorListeners s = 0 then Inl err
      else Inr (s\<lparr> effects := effects s @ [Emit (ErrorSignal err)] \<rparr>))"

definition sleep :: "rat \<Rightarrow> Events \<Rightarrow> Events" where
  "sleep ms s = s\<lparr> effects := effects s @ [Sleep ms] \<rparr>"

text \<open>\<open>toDate\<close> inside the session: \<open>new Date()\<close> reads the clock.\<close>

definition toDateM :: "env \<Rightarrow> rawTime \<Rightarrow> Events \<Rightarrow> date \<times> Events" where
  "toDateM e v s =
     (case v of
        RawDate d \<Rightarrow> (d, s)
      | RawPrimitive _ d \<Rightarrow> (d, s)
      | _ \<Rightarrow> (let (t, s') = readClock e s in (toDate t v, s')))"

subsection \<open>The corrected deadline\<close>

text \<open>
  \<open>getTime\<close> of an Invalid Date is NaN, here \<open>None\<close>; a difference with NaN is NaN, and
  the Date built from NaN is invalid.
\<close>

definition getTime :: "date \<Rightarrow> int option" where
  "getTime d = (case d of Date t \<Rightarrow> Some t | InvalidDate \<Rightarrow> None)"

definition minus' :: "int option \<Rightarrow> int option \<Rightarrow> int option" where
  "minus' a b = (case (a, b) of (Some x, Some y) \<Rightarrow> Some (x - y) | _ \<Rightarrow> None)"

definition newDateOf :: "int option \<Rightarrow> date" where
  "newDateOf n = (case n of Some t \<Rightarrow> newDate t | None \<Rightarrow> InvalidDate)"

text \<open>\<open>calculateTerminationTime now response\<close>, with \<open>now\<close> the reading \<open>Date.now()\<close> gives.\<close>

definition calculateTerminationTime :: "int \<Rightarrow> 'a Times_scheme \<Rightarrow> date" where
  "calculateTerminationTime now response =
     (let serverOffset = minus' (getTime (currentTime response)) (Some now)
      in newDateOf (minus' (getTime (terminationTime response)) serverOffset))"

text \<open>
  The assignment \<open>this.terminationTime = this.calculateTerminationTime(response)\<close>, which
  reads the clock.
\<close>

definition updateTerminationTime :: "env \<Rightarrow> 'a Times_scheme \<Rightarrow> Events \<Rightarrow> Events" where
  "updateTerminationTime e response s =
     (let (now, s1) = readClock e s
      in s1\<lparr> terminationTime' := Some (calculateTerminationTime now response) \<rparr>)"

subsection \<open>Observed categories\<close>

text \<open>A \<open>Set\<close> keeps its elements in the order of their first insertion.\<close>

definition setAdd :: "'a \<Rightarrow> 'a list \<Rightarrow> 'a list" where
  "setAdd x xs = (if x \<in> set xs then xs else xs @ [x])"

text \<open>What both loops over pulled messages do to the observed categories, per message.\<close>

definition observe :: "NotificationMessage \<Rightarrow> EventCategory list \<Rightarrow> EventCategory list" where
  "observe msg observed =
     (case topic msg of
        None \<Rightarrow> observed
      | Some t \<Rightarrow>
          if t = [] then observed
          else let category = categorizeEvent t
               in if category \<noteq> Unknown then setAdd category observed else observed)"

fun trackObserved :: "NotificationMessage list \<Rightarrow> EventCategory list \<Rightarrow> EventCategory list"
where
  "trackObserved [] observed = observed"
| "trackObserved (msg # msgs) observed = trackObserved msgs (observe msg observed)"

definition getObservedCategories :: "Events \<Rightarrow> EventCategory list" where
  "getObservedCategories s = observedCategories s"

definition clearObservedCategories :: "Events \<Rightarrow> Events" where
  "clearObservedCategories s = s\<lparr> observedCategories := [] \<rparr>"

definition hasObservedCategory :: "Events \<Rightarrow> EventCategory \<Rightarrow> bool" where
  "hasObservedCategory s category = (category \<in> set (observedCategories s))"

subsection \<open>The four operations\<close>

record CreatePullPointOptions =
  initialTerminationTime :: "string option"

record PullMessagesOptions =
  timeout :: "string option"
  messageLimitOpt :: "int option"

definition createPullPointSubscription ::
  "env \<Rightarrow> CreatePullPointOptions \<Rightarrow> Events \<Rightarrow> (thrown + PullPointSubscription) \<times> Events"
where
  "createPullPointSubscription e options s =
     (let terminationTime'' =
            (case initialTerminationTime options of
               None \<Rightarrow> DEFAULT_TERMINATION_TIME | Some t \<Rightarrow> t);
          (reply, s1) = request e (CreatePullPointSubscription terminationTime'') None None s
      in case reply of
           Inl err \<Rightarrow> (Inl err, s1)
         | Inr data' \<Rightarrow>
            (case createPullPointSubscriptionResponse data' of
               None \<Rightarrow> (Inl (Error ''Invalid CreatePullPointSubscription response''), s1)
             | Some raw \<Rightarrow>
                (case parseUrl e (case rawAddress raw of Some a \<Rightarrow> a | None \<Rightarrow> []) of
                   Inl err \<Rightarrow> (Inl err, s1)
                 | Inr parsed \<Rightarrow>
                     let (current, s2) = toDateM e (rawCurrentTime raw) s1;
                         (termination, s3) = toDateM e (rawTerminationTime raw) s2;
                         subscription' =
                           \<lparr> currentTime = current, terminationTime = termination,
                             subscriptionReference =
                               \<lparr> address = parsed,
                                 referenceParameters = rawReferenceParameters raw \<rparr> \<rparr>
                     in (Inr subscription',
                         updateTerminationTime e subscription'
                           (s3\<lparr> subscription := Some subscription' \<rparr>)))))"

text \<open>\<open>subscription.subscriptionReference.referenceParameters?.subscriptionId\<close>\<close>

definition subscriptionIdOf :: "PullPointSubscription \<Rightarrow> string option" where
  "subscriptionIdOf sub =
     Option.bind (referenceParameters (subscriptionReference sub)) subscriptionId"

definition pullMessages ::
  "env \<Rightarrow> PullMessagesOptions \<Rightarrow> Events \<Rightarrow> (thrown + PullMessagesResult) \<times> Events"
where
  "pullMessages e options s =
     (case subscription s of
        None \<Rightarrow> (Inl NoActiveSubscription, s)
      | Some sub \<Rightarrow>
          let timeout' = (case timeout options of None \<Rightarrow> DEFAULT_PULL_TIMEOUT | Some t \<Rightarrow> t);
              messageLimit' =
                (case messageLimitOpt options of None \<Rightarrow> messageLimit s | Some l \<Rightarrow> l);
              urlAddress = address (subscriptionReference sub);
              (reply, s1) =
                request e (PullMessages timeout' messageLimit') (Some urlAddress)
                  (subscriptionIdOf sub) s
          in (case reply of
               Inl err \<Rightarrow> (Inl err, s1)
             | Inr data' \<Rightarrow>
                (case pullMessagesResponse data' of
                   None \<Rightarrow> (Inl (Error ''Invalid PullMessages response''), s1)
                 | Some raw \<Rightarrow>
                     let notifications =
                           (case rawNotificationMessage raw of
                              None \<Rightarrow> [] | Some nm \<Rightarrow> asArray nm);
                         s2 = s1\<lparr> observedCategories :=
                                    trackObserved notifications (observedCategories s1) \<rparr>;
                         (current, s3) = toDateM e (rawCurrentTime raw) s2;
                         (termination, s4) = toDateM e (rawTerminationTime raw) s3
                     in (Inr \<lparr> currentTime = current, terminationTime = termination,
                               notificationMessage = notifications \<rparr>, s4))))"

definition renew :: "env \<Rightarrow> Events \<Rightarrow> (thrown + Times) \<times> Events" where
  "renew e s =
     (case subscription s of
        None \<Rightarrow> (Inl NoActiveSubscription, s)
      | Some sub \<Rightarrow>
          let urlAddress = address (subscriptionReference sub);
              (reply, s1) =
                request e (Renew DEFAULT_TERMINATION_TIME) (Some urlAddress)
                  (subscriptionIdOf sub) s
          in (case reply of
               Inl err \<Rightarrow> (Inl err, s1)
             | Inr data' \<Rightarrow>
                (case renewResponse data' of
                   None \<Rightarrow> (Inl TypeError, s1)
                 | Some raw \<Rightarrow>
                     let (current, s2) = toDateM e (rawCurrentTime raw) s1;
                         (termination, s3) = toDateM e (rawTerminationTime raw) s2
                     in (Inr \<lparr> currentTime = current, terminationTime = termination \<rparr>,
                         s3))))"

text \<open>
  \<open>unsubscribe\<close>: the request sits in a \<open>try\<close> whose \<open>catch\<close> drops the failure and whose
  \<open>finally\<close> clears the subscription and the deadline.
\<close>

definition unsubscribe :: "env \<Rightarrow> Events \<Rightarrow> (thrown + unit) \<times> Events" where
  "unsubscribe e s =
     (case subscription s of
        None \<Rightarrow> (Inr (), s)
      | Some sub \<Rightarrow>
          let urlAddress = address (subscriptionReference sub);
              (reply, s1) = request e Unsubscribe (Some urlAddress) (subscriptionIdOf sub) s;
              caught = (case reply of Inl err \<Rightarrow> Inr () | Inr data' \<Rightarrow> Inr ())
          in (caught, s1\<lparr> subscription := None, terminationTime' := None \<rparr>))"

subsection \<open>The polling loop\<close>

definition isRetryableError :: "thrown \<Rightarrow> bool" where
  "isRetryableError err =
     (case err of
        Error _ \<Rightarrow> False
      | External c \<Rightarrow> (case c of None \<Rightarrow> False | Some code \<Rightarrow> code \<in> set RETRY_ERROR_CODES))"

text \<open>
  The guard \<open>!subscription || !terminationTime || Date.now() > terminationTime.getTime()\<close>:
  the clock is read only when the first two disjuncts are false; against the NaN of an
  Invalid Date the comparison is false.
\<close>

definition needsSubscription :: "env \<Rightarrow> Events \<Rightarrow> bool \<times> Events" where
  "needsSubscription e s =
     (case subscription s of
        None \<Rightarrow> (True, s)
      | Some sub \<Rightarrow>
         (case terminationTime' s of
            None \<Rightarrow> (True, s)
          | Some d \<Rightarrow>
              let (now, s1) = readClock e s
              in ((case getTime d of None \<Rightarrow> False | Some t \<Rightarrow> now > t), s1)))"

text \<open>The loop over the pulled messages: track the category, then emit the message.\<close>

fun emitEvents :: "NotificationMessage list \<Rightarrow> Events \<Rightarrow> Events" where
  "emitEvents [] s = s"
| "emitEvents (msg # msgs) s =
     emitEvents msgs
       (emitEvent msg (s\<lparr> observedCategories := observe msg (observedCategories s) \<rparr>))"

text \<open>
  The \<open>try\<close> block of the loop body in two parts: up to the pull, which may throw, and from
  the pull result on, which cannot (a failing renew is caught on the spot).
\<close>

definition acquire :: "env \<Rightarrow> Events \<Rightarrow> (thrown + PullMessagesResult) \<times> Events" where
  "acquire e s =
     (let (needed, s1) = needsSubscription e s;
          (created, s2) =
            (if needed
             then (case createPullPointSubscription e \<lparr> initialTerminationTime = None \<rparr> s1 of
                     (Inl err, s') \<Rightarrow> (Inl err, s')
                   | (Inr sub, s') \<Rightarrow> (Inr (), s'\<lparr> reconnectMs := 10 \<rparr>))
             else (Inr (), s1))
      in case created of
           Inl err \<Rightarrow> (Inl err, s2)
         | Inr _ \<Rightarrow>
            (case pullMessages e
                    \<lparr> timeout = None, messageLimitOpt = Some (messageLimit s2) \<rparr> s2 of
               (Inl err, s3) \<Rightarrow> (Inl err, s3)
             | (Inr result, s3) \<Rightarrow> (Inr result, s3\<lparr> reconnectMs := 10 \<rparr>)))"

definition deliver :: "env \<Rightarrow> PullMessagesResult \<Rightarrow> Events \<Rightarrow> Events" where
  "deliver e result s =
     (let s1 = emitEvents (notificationMessage result) s;
          s2 = updateTerminationTime e result s1
      in case renew e s2 of
           (Inl err, s3) \<Rightarrow> s3
         | (Inr renewResult, s3) \<Rightarrow> updateTerminationTime e renewResult s3)"

text \<open>
  The body of the \<open>while\<close> loop. The \<open>catch\<close> block begins with \<open>emit('error', error)\<close>,
  outside any \<open>try\<close>: what that call throws escapes the body, and the result is the
  escaped failure, if any, with the session as the body leaves it.
\<close>

definition loopBody :: "env \<Rightarrow> Events \<Rightarrow> thrown option \<times> Events" where
  "loopBody e s =
     (case acquire e s of
        (Inr result, s1) \<Rightarrow> (None, deliver e result s1)
      | (Inl err, s1) \<Rightarrow>
         (case emitError err s1 of
            Inl escaped \<Rightarrow> (Some escaped, s1)
          | Inr s2 \<Rightarrow>
              if isRetryableError err
              then let s3 = sleep (reconnectMs s2) s2
                   in if reconnectMs s3 < MAX_RECONNECT_MS
                      then (None,
                            s3\<lparr> reconnectMs :=
                                  min (reconnectMs s3 * (3 / 2)) MAX_RECONNECT_MS \<rparr>)
                      else (None, s3)
              else (None, snd (unsubscribe e s2))))"

text \<open>The session after one pass through the body.\<close>

definition loopIteration :: "env \<Rightarrow> Events \<Rightarrow> Events" where
  "loopIteration e s = snd (loopBody e s)"

text \<open>
  \<open>runEventLoop e n s\<close> runs the loop for at most \<open>n\<close> iterations. Within the loop nothing
  clears \<open>shouldPoll\<close>: that is for \<open>stopEventLoop\<close>, called from outside. A failure that
  escapes the body ends the loop and is the rejection of its promise; \<open>startEventLoop\<close>
  discards that promise.
\<close>

fun runEventLoop :: "env \<Rightarrow> nat \<Rightarrow> Events \<Rightarrow> thrown option \<times> Events" where
  "runEventLoop e 0 s = (None, s)"
| "runEventLoop e (Suc n) s =
     (if shouldPoll s
      then (case loopBody e s of
              (None, s') \<Rightarrow> runEventLoop e n s'
            | (Some escaped, s') \<Rightarrow> (Some escaped, s'))
      else (None, s))"

definition startEventLoop :: "env \<Rightarrow> nat \<Rightarrow> int option \<Rightarrow> Events \<Rightarrow> Events" where
  "startEventLoop e n limit s =
     (if shouldPoll s then s
      else snd (runEventLoop e n
                  (s\<lparr> shouldPoll := True,
                      messageLimit :=
                        (case limit of None \<Rightarrow> DEFAULT_MESSAGE_LIMIT | Some l \<Rightarrow> l) \<rparr>)))"

definition stopEventLoop :: "env \<Rightarrow> Events \<Rightarrow> Events" where
  "stopEventLoop e s = snd (unsubscribe e (s\<lparr> shouldPoll := False \<rparr>))"

section \<open>Notions used to state the properties\<close>

text \<open>
  The last item of a sequence whose lower-cased name is one of the given aliases, the
  test for a true value that the extractors apply, and the two item sequences of a
  message.
\<close>

definition lastMatching :: "string list \<Rightarrow> SimpleItem list \<Rightarrow> SimpleItem option" where
  "lastMatching aliases items =
     (case filter (\<lambda>item. itemName item \<in> set aliases) items of
        [] \<Rightarrow> None
      | xs \<Rightarrow> Some (last xs))"


text \<open>The event signals and the sleeps of a log, in order.\<close>

fun eventsOf :: "effect list \<Rightarrow> NotificationMessage list" where
  "eventsOf [] = []"
| "eventsOf (Emit (Event msg) # rest) = msg # eventsOf rest"
| "eventsOf (other # rest) = eventsOf rest"

fun sleepsOf :: "effect list \<Rightarrow> rat list" where
  "sleepsOf [] = []"
| "sleepsOf (Sleep ms # rest) = ms # sleepsOf rest"
| "sleepsOf (other # rest) = sleepsOf rest"

text \<open>
  The sessions that calls of the public operations can produce from a fresh one, in a
  given world and with no two calls interleaved.
\<close>

inductive reachable :: "env \<Rightarrow> Events \<Rightarrow> bool" for e :: env where
  fresh: "reachable e newEvents"
| create: "reachable e s \<Longrightarrow> reachable e (snd (createPullPointSubscription e options s))"
| pull: "reachable e s \<Longrightarrow> reachable e (snd (pullMessages e options' s))"
| renew: "reachable e s \<Longrightarrow> reachable e (snd (renew e s))"
| unsubscribe: "reachable e s \<Longrightarrow> reachable e (snd (unsubscribe e s))"
| start: "reachable e s \<Longrightarrow> reachable e (startEventLoop e n limit s)"
| stop: "reachable e s \<Longrightarrow> reachable e (stopEventLoop e s)"
| clear: "reachable e s \<Longrightarrow> reachable e (clearObservedCategories s)"
| listen: "reachable e s \<Longrightarrow> reachable e (onError s)"

text \<open>The growth step of the retry delay, as the loop applies it after a sleep.\<close>

definition nextDelay :: "rat \<Rightarrow> rat" where
  "nextDelay d = (if d < MAX_RECONNECT_MS then min (d * (3 / 2)) MAX_RECONNECT_MS else d)"



section \<open>Concrete messages, worlds and sessions\<close>



definition motionOn :: NotificationMessage where
  "motionOn =
     \<lparr> topic = Some ''tns1:RuleEngine/CellMotionDetector/Motion'',
       message = Some \<lparr> utcTime = RawAbsent, source = None, key = None,
         data = Some \<lparr> simpleItem =
           Some (One \<lparr> name = Some ''IsMotion'', value' = VStr ''true'' \<rparr>) \<rparr> \<rparr> \<rparr>"

definition relayMessage :: NotificationMessage where
  "relayMessage = \<lparr> topic = Some ''tns1:Device/Trigger/Relay'', message = None \<rparr>"

definition noTopic :: NotificationMessage where
  "noTopic = \<lparr> topic = None, message = None \<rparr>"

text \<open>
  Three worlds, with the local clock standing at 5000 ms: one whose every request is
  refused, one that answers every request, and one that answers all but the third.
\<close>

definition answer :: SoapData where
  "answer =
     \<lparr> createPullPointSubscriptionResponse =
         Some \<lparr> rawCurrentTime = RawDate (Date 0), rawTerminationTime = RawDate (Date 120000),
                rawAddress = Some ''http://camera/subscription'',
                rawReferenceParameters = None \<rparr>,
       pullMessagesResponse =
         Some \<lparr> rawCurrentTime = RawDate (Date 0), rawTerminationTime = RawDate (Date 120000),
                rawNotificationMessage = Some (Many [motionOn, relayMessage]) \<rparr>,
       renewResponse =
         Some \<lparr> rawCurrentTime = RawDate (Date 1000),
                rawTerminationTime = RawDate (Date 181000) \<rparr> \<rparr>"

definition offline :: env where
  "offline = \<lparr> clock = (\<lambda>k. 5000), net = (\<lambda>k. Inl (External (Some ''ECONNREFUSED''))),
              parseUrl = Inr \<rparr>"

definition online :: env where
  "online = \<lparr> clock = (\<lambda>k. 5000), net = (\<lambda>k. Inr answer), parseUrl = Inr \<rparr>"

definition flaky :: env where
  "flaky = \<lparr> clock = (\<lambda>k. 5000),
            net = (\<lambda>k. if k = 2 then Inl (External (Some ''ETIMEDOUT'')) else Inr answer),
            parseUrl = Inr \<rparr>"

text \<open>A fresh session set to poll; nothing listens to its \<open>error\<close> signal.\<close>

definition polling :: Events where
  "polling = newEvents\<lparr> shouldPoll := True \<rparr>"

text \<open>A session holding a subscription whose local deadline stands at 0.\<close>

definition subscribed :: Events where
  "subscribed =
     newEvents\<lparr> subscription :=
                  Some \<lparr> currentTime = Date 0, terminationTime = Date 0,
                         subscriptionReference =
                           \<lparr> address = ''http://camera/subscription'',
                             referenceParameters = None \<rparr> \<rparr>,
                terminationTime' := Some (Date 0) \<rparr>"

definition heartbeat :: NotificationMessage where
  "heartbeat = \<lparr> topic = Some ''tns1:Monitoring/Heartbeat'', message = None \<rparr>"

text \<open>A polling session with a listener attached to the \<open>error\<close> signal.\<close>

definition listening :: Events where
  "listening = onError polling"

text \<open>A polling session whose retry delay has grown to 22.5 ms.\<close>

definition backedOff :: Events where
  "backedOff = polling\<lparr> reconnectMs := 45 / 2 \<rparr>"

section \<open>Properties of the classifier\<close>

lemma str_includes_iff_sublist: "str_includes s p \<longleftrightarrow> sublist p s"
  by (induction s) (auto simp: sublist_Cons_right)

lemma categorizeEvent_refines: "categorizeEvent t = classifySpec t"
  by (simp add: categorizeEvent_def classifySpec_def patternGroups_def groupMatches_def Let_def)


text \<open>
  C3. The classifier is a total function of the topic (its definition has no failing
  branch) and evaluates the pattern groups in the order face, person, vehicle, animal,
  license plate, motion, tamper, audio, digital input, relay, ptz, recording, analytics,
  device: its result is the category of the first group of that ordered table with a
  pattern occurring in the lower-cased topic. A topic containing both "analytics" and
  "facedetection", whatever the case of its letters, is classified as face, and a topic
  matching no group as unknown.
\<close>

theorem categorizeEvent_priority:
  "categorizeEvent t =
     (case find (groupMatches (toLowerCase t)) patternGroups of
        Some g \<Rightarrow> fst g | None \<Rightarrow> Unknown)
   \<and> map fst patternGroups =
       [Face, Person, Vehicle, Animal, LicensePlate, Motion, Tamper, Audio, DigitalInput,
        Relay, Ptz, Recording, Analytics, Device]
   \<and> (str_includes (toLowerCase t) ''analytics''
        \<and> str_includes (toLowerCase t) ''facedetection'' \<longrightarrow> categorizeEvent t = Face)
   \<and> (\<not> list_ex (groupMatches (toLowerCase t)) patternGroups
        \<longrightarrow> categorizeEvent t = Unknown)"
proof (intro conjI)
  show "categorizeEvent t =
     (case find (groupMatches (toLowerCase t)) patternGroups of
        Some g \<Rightarrow> fst g | None \<Rightarrow> Unknown)"
    using categorizeEvent_refines [of t] by (simp add: classifySpec_def)
  show "map fst patternGroups =
       [Face, Person, Vehicle, Animal, LicensePlate, Motion, Tamper, Audio, DigitalInput,
        Relay, Ptz, Recording, Analytics, Device]"
    by (simp add: patternGroups_def)
  show "str_includes (toLowerCase t) ''analytics''
        \<and> str_includes (toLowerCase t) ''facedetection'' \<longrightarrow> categorizeEvent t = Face"
    by (simp add: categorizeEvent_def Let_def)
  show "\<not> list_ex (groupMatches (toLowerCase t)) patternGroups
        \<longrightarrow> categorizeEvent t = Unknown"
    by (simp add: categorizeEvent_def Let_def patternGroups_def groupMatches_def)
qed

theorem categorizeEvent_priority_witness:
  "str_includes (toLowerCase ''tns1:VideoAnalytics/FaceDetection'') ''analytics''
   \<and> str_includes (toLowerCase ''tns1:VideoAnalytics/FaceDetection'') ''facedetection''
   \<and> categorizeEvent ''tns1:VideoAnalytics/FaceDetection'' = Face
   \<and> \<not> list_ex (groupMatches (toLowerCase ''tns1:Monitoring/Heartbeat'')) patternGroups
   \<and> categorizeEvent ''tns1:Monitoring/Heartbeat'' = Unknown"
proof -
  have a: "str_includes (toLowerCase ''tns1:VideoAnalytics/FaceDetection'') ''analytics''"
    by code_simp
  have f: "str_includes (toLowerCase ''tns1:VideoAnalytics/FaceDetection'') ''facedetection''"
    by code_simp
  have n: "\<not> list_ex (groupMatches (toLowerCase ''tns1:Monitoring/Heartbeat'')) patternGroups"
    by code_simp
  from a f have "categorizeEvent ''tns1:VideoAnalytics/FaceDetection'' = Face"
    using categorizeEvent_priority [of "''tns1:VideoAnalytics/FaceDetection''"] by blast
  moreover from n have "categorizeEvent ''tns1:Monitoring/Heartbeat'' = Unknown"
    using categorizeEvent_priority [of "''tns1:Monitoring/Heartbeat''"] by blast
  ultimately show ?thesis using a f n by blast
qed

section \<open>Properties of the extractors\<close>

lemma lastMatching_Nil [simp]: "lastMatching aliases [] = None"
  by (simp add: lastMatching_def)






















section \<open>Properties of the session\<close>

text \<open>
  C1, as the claim states it, fails: with the device at \<open>T = 0\<close>, a termination time of
  \<open>T + 120 s\<close> and the local clock at \<open>T + 5 s\<close>, the corrected deadline is not
  \<open>localNow + 115 s\<close>.
\<close>

theorem skew_115_counterexample:
  "calculateTerminationTime 5000 \<lparr> currentTime = Date 0, terminationTime = Date 120000 \<rparr>
     \<noteq> Date (5000 + 115000)"
  by (simp add: calculateTerminationTime_def getTime_def minus'_def newDateOf_def
      newDate_def)

text \<open>
  C1, amended. When the device reports \<open>currentTime = T\<close> and
  \<open>terminationTime = T + 120 s\<close> and the local clock reads \<open>T + 5 s\<close>, the corrected
  deadline is \<open>localNow + 120 s\<close>: the subscription has 120 s left on either clock. (The
  bound keeps the result within the range of a Date.)
\<close>

theorem skew_removed:
  "\<bar>T + 125000\<bar> \<le> 8640000000000000 \<Longrightarrow>
   calculateTerminationTime (T + 5000)
     \<lparr> currentTime = Date T, terminationTime = Date (T + 120000) \<rparr>
   = Date ((T + 5000) + 120000)"
  by (simp add: calculateTerminationTime_def getTime_def minus'_def newDateOf_def
      newDate_def)

theorem skew_removed_witness:
  "\<bar>1700000000000 + 125000\<bar> \<le> (8640000000000000 :: int)
   \<and> calculateTerminationTime (1700000000000 + 5000)
        \<lparr> currentTime = Date 1700000000000,
          terminationTime = Date (1700000000000 + 120000) \<rparr>
      = Date ((1700000000000 + 5000) + 120000)"
proof -
  have h: "\<bar>1700000000000 + 125000\<bar> \<le> (8640000000000000 :: int)" by simp
  show ?thesis using h skew_removed [OF h] by simp
qed

subsection \<open>What each step leaves unchanged\<close>

lemma readClock_simps [simp]:
  "fst (readClock e s) = clock e (ticks s)"
  "subscription (snd (readClock e s)) = subscription s"
  "terminationTime' (snd (readClock e s)) = terminationTime' s"
  "shouldPoll (snd (readClock e s)) = shouldPoll s"
  "reconnectMs (snd (readClock e s)) = reconnectMs s"
  "messageLimit (snd (readClock e s)) = messageLimit s"
  "errorListeners (snd (readClock e s)) = errorListeners s"
  "observedCategories (snd (readClock e s)) = observedCategories s"
  "ticks (snd (readClock e s)) = Suc (ticks s)"
  "calls (snd (readClock e s)) = calls s"
  "effects (snd (readClock e s)) = effects s @ [Now (clock e (ticks s))]"
  by (simp_all add: readClock_def Let_def)

lemma request_simps [simp]:
  "fst (request e op' target sid s) = net e (calls s)"
  "subscription (snd (request e op' target sid s)) = subscription s"
  "terminationTime' (snd (request e op' target sid s)) = terminationTime' s"
  "shouldPoll (snd (request e op' target sid s)) = shouldPoll s"
  "reconnectMs (snd (request e op' target sid s)) = reconnectMs s"
  "messageLimit (snd (request e op' target sid s)) = messageLimit s"
  "errorListeners (snd (request e op' target sid s)) = errorListeners s"
  "observedCategories (snd (request e op' target sid s)) = observedCategories s"
  "ticks (snd (request e op' target sid s)) = ticks s"
  "calls (snd (request e op' target sid s)) = Suc (calls s)"
  "effects (snd (request e op' target sid s)) = effects s @ [Request op' target sid]"
  by (simp_all add: request_def)

lemma emitEvent_simps [simp]:
  "subscription (emitEvent msg s) = subscription s"
  "terminationTime' (emitEvent msg s) = terminationTime' s"
  "shouldPoll (emitEvent msg s) = shouldPoll s"
  "reconnectMs (emitEvent msg s) = reconnectMs s"
  "messageLimit (emitEvent msg s) = messageLimit s"
  "errorListeners (emitEvent msg s) = errorListeners s"
  "observedCategories (emitEvent msg s) = observedCategories s"
  "ticks (emitEvent msg s) = ticks s"
  "calls (emitEvent msg s) = calls s"
  "effects (emitEvent msg s) = effects s @ [Emit (Event msg)]"
  by (simp_all add: emitEvent_def)

lemma sleep_simps [simp]:
  "subscription (sleep ms s) = subscription s"
  "terminationTime' (sleep ms s) = terminationTime' s"
  "shouldPoll (sleep ms s) = shouldPoll s"
  "reconnectMs (sleep ms s) = reconnectMs s"
  "messageLimit (sleep ms s) = messageLimit s"
  "errorListeners (sleep ms s) = errorListeners s"
  "observedCategories (sleep ms s) = observedCategories s"
  "ticks (sleep ms s) = ticks s"
  "calls (sleep ms s) = calls s"
  "effects (sleep ms s) = effects s @ [Sleep ms]"
  by (simp_all add: sleep_def)

lemma toDateM_simps [simp]:
  "subscription (snd (toDateM e v s)) = subscription s"
  "terminationTime' (snd (toDateM e v s)) = terminationTime' s"
  "shouldPoll (snd (toDateM e v s)) = shouldPoll s"
  "reconnectMs (snd (toDateM e v s)) = reconnectMs s"
  "messageLimit (snd (toDateM e v s)) = messageLimit s"
  "errorListeners (snd (toDateM e v s)) = errorListeners s"
  "observedCategories (snd (toDateM e v s)) = observedCategories s"
  "calls (snd (toDateM e v s)) = calls s"
  by (cases v; simp add: toDateM_def split_def)+

lemma toDateM_fst: "fst (toDateM e v s) = toDate (clock e (ticks s)) v"
  by (cases v; simp add: toDateM_def split_def toDate_def)

lemma toDateM_effects: "\<exists>reads. effects (snd (toDateM e v s)) = effects s @ reads \<and> eventsOf reads = [] \<and> sleepsOf reads = []"
  by (cases v; simp add: toDateM_def split_def)

lemma updateTerminationTime_simps [simp]:
  "subscription (updateTerminationTime e r s) = subscription s"
  "terminationTime' (updateTerminationTime e r s) = Some (calculateTerminationTime (clock e (ticks s)) r)"
  "shouldPoll (updateTerminationTime e r s) = shouldPoll s"
  "reconnectMs (updateTerminationTime e r s) = reconnectMs s"
  "messageLimit (updateTerminationTime e r s) = messageLimit s"
  "errorListeners (updateTerminationTime e r s) = errorListeners s"
  "observedCategories (updateTerminationTime e r s) = observedCategories s"
  "ticks (updateTerminationTime e r s) = Suc (ticks s)"
  "calls (updateTerminationTime e r s) = calls s"
  "effects (updateTerminationTime e r s) = effects s @ [Now (clock e (ticks s))]"
  by (simp_all add: updateTerminationTime_def readClock_def Let_def)

lemma emitEvents_simps [simp]:
  "subscription (emitEvents msgs s) = subscription s"
  "terminationTime' (emitEvents msgs s) = terminationTime' s"
  "shouldPoll (emitEvents msgs s) = shouldPoll s"
  "reconnectMs (emitEvents msgs s) = reconnectMs s"
  "messageLimit (emitEvents msgs s) = messageLimit s"
  "errorListeners (emitEvents msgs s) = errorListeners s"
  "ticks (emitEvents msgs s) = ticks s"
  "calls (emitEvents msgs s) = calls s"
  by (induction msgs arbitrary: s; simp)+

lemma emitEvents_effects:
  "effects (emitEvents msgs s) = effects s @ map (\<lambda>msg. Emit (Event msg)) msgs"
  by (induction msgs arbitrary: s) simp_all

lemma emitEvents_observed:
  "observedCategories (emitEvents msgs s) = trackObserved msgs (observedCategories s)"
  by (induction msgs arbitrary: s) simp_all


lemma pullMessages_simps [simp]:
  "subscription (snd (pullMessages e options s)) = subscription s"
  "terminationTime' (snd (pullMessages e options s)) = terminationTime' s"
  "shouldPoll (snd (pullMessages e options s)) = shouldPoll s"
  "reconnectMs (snd (pullMessages e options s)) = reconnectMs s"
  "messageLimit (snd (pullMessages e options s)) = messageLimit s"
  "errorListeners (snd (pullMessages e options s)) = errorListeners s"
  by (simp_all add: pullMessages_def split_def Let_def split: option.split sum.split)

lemma renew_simps [simp]:
  "subscription (snd (renew e s)) = subscription s"
  "terminationTime' (snd (renew e s)) = terminationTime' s"
  "shouldPoll (snd (renew e s)) = shouldPoll s"
  "reconnectMs (snd (renew e s)) = reconnectMs s"
  "messageLimit (snd (renew e s)) = messageLimit s"
  "errorListeners (snd (renew e s)) = errorListeners s"
  "observedCategories (snd (renew e s)) = observedCategories s"
  by (simp_all add: renew_def split_def Let_def split: option.split sum.split)

lemma unsubscribe_simps [simp]:
  "fst (unsubscribe e s) = Inr ()"
  "subscription (snd (unsubscribe e s)) = None"
  "shouldPoll (snd (unsubscribe e s)) = shouldPoll s"
  "reconnectMs (snd (unsubscribe e s)) = reconnectMs s"
  "messageLimit (snd (unsubscribe e s)) = messageLimit s"
  "errorListeners (snd (unsubscribe e s)) = errorListeners s"
  "observedCategories (snd (unsubscribe e s)) = observedCategories s"
  by (simp_all add: unsubscribe_def split_def Let_def split: option.split sum.split)

lemma create_simps [simp]:
  "shouldPoll (snd (createPullPointSubscription e options s)) = shouldPoll s"
  "reconnectMs (snd (createPullPointSubscription e options s)) = reconnectMs s"
  "messageLimit (snd (createPullPointSubscription e options s)) = messageLimit s"
  "errorListeners (snd (createPullPointSubscription e options s)) = errorListeners s"
  "observedCategories (snd (createPullPointSubscription e options s)) = observedCategories s"
  by (simp_all add: createPullPointSubscription_def split_def Let_def
      split: option.split sum.split)

lemma create_success:
  assumes "createPullPointSubscription e options s = (Inr sub, s')"
  shows "subscription s' = Some sub"
    and "terminationTime' s' = Some (calculateTerminationTime (clock e (ticks s' - 1)) sub)"
    and "effects s' \<noteq> [] \<and> last (effects s') = Now (clock e (ticks s' - 1))"
  using assms
  by (auto simp: createPullPointSubscription_def split_def Let_def
      split: option.splits sum.splits)

lemma create_failure:
  assumes "createPullPointSubscription e options s = (Inl err, s')"
  shows "subscription s' = subscription s" and "terminationTime' s' = terminationTime' s"
    and "effects s' = effects s @ [Request (CreatePullPointSubscription (case initialTerminationTime options of None \<Rightarrow> DEFAULT_TERMINATION_TIME | Some t \<Rightarrow> t)) None None]"
  using assms
  by (auto simp: createPullPointSubscription_def split_def Let_def
      split: option.splits sum.splits)

lemma pull_success_subscription:
  "pullMessages e options s = (Inr result, s') \<Longrightarrow> \<exists>sub. subscription s = Some sub"
  by (cases "subscription s") (simp_all add: pullMessages_def)



lemma eventsOf_append [simp]: "eventsOf (xs @ ys) = eventsOf xs @ eventsOf ys"
  by (induction xs rule: eventsOf.induct) simp_all

lemma sleepsOf_append [simp]: "sleepsOf (xs @ ys) = sleepsOf xs @ sleepsOf ys"
  by (induction xs rule: sleepsOf.induct) simp_all

lemma eventsOf_emits [simp]: "eventsOf (map (\<lambda>msg. Emit (Event msg)) msgs) = msgs"
  by (induction msgs) simp_all

lemma toDateM_effects_eq:
  "effects (snd (toDateM e v s)) =
     effects s @ (case v of RawDate _ \<Rightarrow> [] | RawPrimitive _ _ \<Rightarrow> []
                  | _ \<Rightarrow> [Now (clock e (ticks s))])"
  by (cases v; simp add: toDateM_def split_def)

lemma toDateM_eventsOf [simp]:
  "eventsOf (effects (snd (toDateM e v s))) = eventsOf (effects s)"
  by (cases v; simp add: toDateM_effects_eq)

lemma toDateM_sleepsOf [simp]:
  "sleepsOf (effects (snd (toDateM e v s))) = sleepsOf (effects s)"
  by (cases v; simp add: toDateM_effects_eq)

lemma pullMessages_quiet [simp]:
  "eventsOf (effects (snd (pullMessages e options s))) = eventsOf (effects s)"
  "sleepsOf (effects (snd (pullMessages e options s))) = sleepsOf (effects s)"
  by (simp_all add: pullMessages_def split_def Let_def split: option.split sum.split)

lemma create_quiet [simp]:
  "eventsOf (effects (snd (createPullPointSubscription e options s))) = eventsOf (effects s)"
  "sleepsOf (effects (snd (createPullPointSubscription e options s))) = sleepsOf (effects s)"
  by (simp_all add: createPullPointSubscription_def split_def Let_def
      split: option.split sum.split)

lemma needsSubscription_simps [simp]:
  "subscription (snd (needsSubscription e s)) = subscription s"
  "terminationTime' (snd (needsSubscription e s)) = terminationTime' s"
  "shouldPoll (snd (needsSubscription e s)) = shouldPoll s"
  "reconnectMs (snd (needsSubscription e s)) = reconnectMs s"
  "messageLimit (snd (needsSubscription e s)) = messageLimit s"
  "errorListeners (snd (needsSubscription e s)) = errorListeners s"
  "observedCategories (snd (needsSubscription e s)) = observedCategories s"
  "calls (snd (needsSubscription e s)) = calls s"
  "eventsOf (effects (snd (needsSubscription e s))) = eventsOf (effects s)"
  "sleepsOf (effects (snd (needsSubscription e s))) = sleepsOf (effects s)"
  by (simp_all add: needsSubscription_def split_def Let_def split: option.split)

text \<open>\<open>acquire\<close> by its three outcomes, with the pairs projected.\<close>

lemma acquire_cases:
  "acquire e s =
     (let s1 = snd (needsSubscription e s);
          c = createPullPointSubscription e \<lparr> initialTerminationTime = None \<rparr> s1
      in if fst (needsSubscription e s)
         then (case fst c of
                 Inl err \<Rightarrow> (Inl err, snd c)
               | Inr sub \<Rightarrow>
                   (let s2 = (snd c)\<lparr> reconnectMs := 10 \<rparr>;
                        p = pullMessages e \<lparr> timeout = None, messageLimitOpt = Some (messageLimit s2) \<rparr> s2
                    in case fst p of Inl err \<Rightarrow> (Inl err, snd p)
                       | Inr result \<Rightarrow> (Inr result, (snd p)\<lparr> reconnectMs := 10 \<rparr>)))
         else (let p = pullMessages e \<lparr> timeout = None, messageLimitOpt = Some (messageLimit s1) \<rparr> s1
               in case fst p of Inl err \<Rightarrow> (Inl err, snd p)
                  | Inr result \<Rightarrow> (Inr result, (snd p)\<lparr> reconnectMs := 10 \<rparr>)))"
  by (simp add: acquire_def split_def Let_def split: sum.split prod.split)


lemma acquire_simps [simp]:
  "shouldPoll (snd (acquire e s)) = shouldPoll s"
  "messageLimit (snd (acquire e s)) = messageLimit s"
  "errorListeners (snd (acquire e s)) = errorListeners s"
  "eventsOf (effects (snd (acquire e s))) = eventsOf (effects s)"
  "sleepsOf (effects (snd (acquire e s))) = sleepsOf (effects s)"
  by (simp_all add: acquire_cases Let_def split: sum.split)

lemma pull_success_fst:
  "fst (pullMessages e options s) = Inr result \<Longrightarrow> \<exists>sub. subscription s = Some sub"
  by (cases "subscription s") (simp_all add: pullMessages_def)

lemma acquire_success:
  assumes "acquire e s = (Inr result, s1)"
  shows "\<exists>sub. subscription s1 = Some sub" and "reconnectMs s1 = 10"
  using assms
  by (auto simp: acquire_cases Let_def split: sum.splits if_splits dest!: pull_success_fst)

lemma deliver_simps [simp]:
  "subscription (deliver e result s) = subscription s"
  "shouldPoll (deliver e result s) = shouldPoll s"
  "reconnectMs (deliver e result s) = reconnectMs s"
  "messageLimit (deliver e result s) = messageLimit s"
  "errorListeners (deliver e result s) = errorListeners s"
  by (simp_all add: deliver_def Let_def split_def split: sum.split)

subsection \<open>One iteration of the loop\<close>

lemma loopBody_cases:
  "loopBody e s =
     (case fst (acquire e s) of
        Inr result \<Rightarrow> (None, deliver e result (snd (acquire e s)))
      | Inl err \<Rightarrow>
          if errorListeners s = 0 then (Some err, snd (acquire e s))
          else
            let s2 = (snd (acquire e s))
                       \<lparr> effects := effects (snd (acquire e s)) @ [Emit (ErrorSignal err)] \<rparr>
            in if isRetryableError err
               then (None, (sleep (reconnectMs s2) s2)
                             \<lparr> reconnectMs := nextDelay (reconnectMs s2) \<rparr>)
               else (None, snd (unsubscribe e s2)))"
  by (simp add: loopBody_def emitError_def split_def Let_def nextDelay_def sleep_def
      split: sum.split prod.split)

lemma loopIteration_cases:
  "loopIteration e s =
     (case fst (acquire e s) of
        Inr result \<Rightarrow> deliver e result (snd (acquire e s))
      | Inl err \<Rightarrow>
          if errorListeners s = 0 then snd (acquire e s)
          else
            let s2 = (snd (acquire e s))
                       \<lparr> effects := effects (snd (acquire e s)) @ [Emit (ErrorSignal err)] \<rparr>
            in if isRetryableError err
               then (sleep (reconnectMs s2) s2)\<lparr> reconnectMs := nextDelay (reconnectMs s2) \<rparr>
               else snd (unsubscribe e s2))"
  by (simp add: loopIteration_def loopBody_cases Let_def split: sum.split)

lemma loopBody_escape:
  "fst (loopBody e s) =
     (case fst (acquire e s) of
        Inr result \<Rightarrow> None
      | Inl err \<Rightarrow> if errorListeners s = 0 then Some err else None)"
  by (simp add: loopBody_cases Let_def split: sum.split)

lemma loopBody_collapse: "loopBody e s = (fst (loopBody e s), loopIteration e s)"
  by (simp add: loopIteration_def)

lemma deliver_effects:
  assumes "subscription s = Some sub"
  shows "\<exists>post. effects (deliver e result s) =
           effects s @ map (\<lambda>msg. Emit (Event msg)) (notificationMessage result)
             @ Now (clock e (ticks s))
             # Request (Renew DEFAULT_TERMINATION_TIME)
                 (Some (address (subscriptionReference sub))) (subscriptionIdOf sub)
             # post
         \<and> eventsOf post = [] \<and> sleepsOf post = []"
  using assms
  by (simp add: deliver_def renew_def emitEvents_effects toDateM_effects_eq split_def Let_def
      split: sum.split option.split rawTime.split)

lemma deliver_deadline:
  "terminationTime' (deliver e result s) =
     (let s2 = updateTerminationTime e result (emitEvents (notificationMessage result) s)
      in case renew e s2 of
           (Inl err, s3) \<Rightarrow> Some (calculateTerminationTime (clock e (ticks s)) result)
         | (Inr renewResult, s3) \<Rightarrow>
             Some (calculateTerminationTime (clock e (ticks s3)) renewResult))"
proof -
  have "terminationTime' (snd (renew e s2)) = terminationTime' s2" for s2 by simp
  then show ?thesis
    by (simp add: deliver_def Let_def split_def split: sum.split)
qed

subsection \<open>The retry delay\<close>

lemma nextDelay_closed:
  "(nextDelay ^^ k) 10 = min (10 * (3 / 2) ^ k) 120000"
proof (induction k)
  case 0
  show ?case by simp
next
  case (Suc k)
  show ?case
  proof (cases "10 * (3 / 2 :: rat) ^ k < 120000")
    case True
    then show ?thesis using Suc
      by (simp add: nextDelay_def MAX_RECONNECT_MS_def min_def mult.commute mult.left_commute)
  next
    case False
    then have "(120000 :: rat) \<le> 10 * (3 / 2) ^ k" by simp
    also have "\<dots> \<le> 10 * (3 / 2) ^ Suc k" by simp
    finally show ?thesis using Suc False
      by (simp add: nextDelay_def MAX_RECONNECT_MS_def min_def)
  qed
qed

lemma retryable_code:
  "code \<in> set RETRY_ERROR_CODES \<Longrightarrow> isRetryableError (External (Some code))"
  by (simp add: isRetryableError_def)

lemma acquire_refused:
  assumes "subscription s = None" and "net e (calls s) = Inl err"
  shows "fst (acquire e s) = Inl err"
    and "subscription (snd (acquire e s)) = None"
    and "reconnectMs (snd (acquire e s)) = reconnectMs s"
    and "calls (snd (acquire e s)) = Suc (calls s)"
  using assms
  by (simp_all add: acquire_cases needsSubscription_def createPullPointSubscription_def
      split_def Let_def)

lemma refused_iteration:
  assumes "subscription s = None" and "net e (calls s) = Inl err" and "isRetryableError err"
    and "errorListeners s \<noteq> 0"
  shows "subscription (loopIteration e s) = None"
    and "shouldPoll (loopIteration e s) = shouldPoll s"
    and "reconnectMs (loopIteration e s) = nextDelay (reconnectMs s)"
    and "calls (loopIteration e s) = Suc (calls s)"
    and "sleepsOf (effects (loopIteration e s)) = sleepsOf (effects s) @ [reconnectMs s]"
    and "errorListeners (loopIteration e s) = errorListeners s"
    and "fst (loopBody e s) = None"
  using assms acquire_refused [OF assms(1,2)]
  by (simp_all add: loopIteration_cases loopBody_escape Let_def)

lemma refused_loop:
  assumes "shouldPoll s" and "subscription s = None" and "errorListeners s \<noteq> 0"
    and "\<forall>k<n. \<exists>code\<in>set RETRY_ERROR_CODES. net e (calls s + k) = Inl (External (Some code))"
  shows "sleepsOf (effects (snd (runEventLoop e n s))) =
           sleepsOf (effects s) @ map (\<lambda>k. (nextDelay ^^ k) (reconnectMs s)) [0..<n]"
  using assms
proof (induction n arbitrary: s)
  case 0
  show ?case by simp
next
  case (Suc n)
  from Suc.prems(4) obtain code where
    code: "code \<in> set RETRY_ERROR_CODES" "net e (calls s) = Inl (External (Some code))"
    by force
  note step = refused_iteration
    [OF Suc.prems(2) code(2) retryable_code [OF code(1)] Suc.prems(3)]
  have later: "\<forall>k<n. \<exists>code\<in>set RETRY_ERROR_CODES.
      net e (calls (loopIteration e s) + k) = Inl (External (Some code))"
    using Suc.prems(4) step(4) by auto
  have body: "loopBody e s = (None, loopIteration e s)"
    using loopBody_collapse [of e s] step(7) by simp
  have "sleepsOf (effects (snd (runEventLoop e n (loopIteration e s)))) =
          sleepsOf (effects (loopIteration e s))
            @ map (\<lambda>k. (nextDelay ^^ k) (reconnectMs (loopIteration e s))) [0..<n]"
    using Suc.IH [OF _ step(1) _ later] Suc.prems(1,3) step(2,6) by simp
  also have "\<dots> = sleepsOf (effects s)
            @ reconnectMs s # map (\<lambda>k. (nextDelay ^^ Suc k) (reconnectMs s)) [0..<n]"
    by (simp add: step funpow_swap1)
  also have "reconnectMs s # map (\<lambda>k. (nextDelay ^^ Suc k) (reconnectMs s)) [0..<n]
               = map (\<lambda>k. (nextDelay ^^ k) (reconnectMs s)) [0..<Suc n]"
    by (simp only: upt_conv_Cons [of 0 "Suc n"] map_Suc_upt [symmetric] list.map map_map o_def
        funpow.simps id_apply zero_less_Suc if_True)
  finally show ?case using Suc.prems(1) body by simp
qed


subsection \<open>The observed categories\<close>

lemma observe_keeps:
  "Unknown \<notin> set observed \<Longrightarrow> Unknown \<notin> set (observe msg observed)"
  by (simp add: observe_def setAdd_def Let_def split: option.split)

lemma trackObserved_keeps:
  "Unknown \<notin> set observed \<Longrightarrow> Unknown \<notin> set (trackObserved msgs observed)"
  by (induction msgs arbitrary: observed) (simp_all add: observe_keeps)

lemma observe_unknown:
  "topic msg = None \<or> (\<exists>t. topic msg = Some t \<and> categorizeEvent t = Unknown)
   \<Longrightarrow> observe msg observed = observed"
  by (auto simp: observe_def Let_def)

lemma trackObserved_unknown:
  "\<forall>msg\<in>set msgs. topic msg = None \<or> (\<exists>t. topic msg = Some t \<and> categorizeEvent t = Unknown)
   \<Longrightarrow> trackObserved msgs observed = observed"
  by (induction msgs arbitrary: observed) (simp_all add: observe_unknown)

lemma pullMessages_observed:
  "\<exists>msgs. observedCategories (snd (pullMessages e options s))
            = trackObserved msgs (observedCategories s)"
proof (cases "fst (pullMessages e options s)")
  case (Inl err)
  then have "observedCategories (snd (pullMessages e options s)) = observedCategories s"
    by (auto simp: pullMessages_def split_def Let_def split: option.splits sum.splits)
  then show ?thesis by (metis trackObserved.simps(1))
next
  case (Inr result)
  then have "observedCategories (snd (pullMessages e options s))
               = trackObserved (notificationMessage result) (observedCategories s)"
    by (auto simp: pullMessages_def split_def Let_def split: option.splits sum.splits)
  then show ?thesis by blast
qed

lemma pullMessages_keeps:
  "Unknown \<notin> set (observedCategories s)
   \<Longrightarrow> Unknown \<notin> set (observedCategories (snd (pullMessages e options s)))"
  using pullMessages_observed [of e options s] trackObserved_keeps by metis

lemma acquire_keeps:
  "Unknown \<notin> set (observedCategories s)
   \<Longrightarrow> Unknown \<notin> set (observedCategories (snd (acquire e s)))"
  by (simp add: acquire_cases Let_def pullMessages_keeps split: sum.split)

lemma deliver_observed:
  "observedCategories (deliver e result s)
     = trackObserved (notificationMessage result) (observedCategories s)"
  by (simp add: deliver_def Let_def split_def emitEvents_observed split: sum.split)

lemma loopIteration_keeps:
  "Unknown \<notin> set (observedCategories s)
   \<Longrightarrow> Unknown \<notin> set (observedCategories (loopIteration e s))"
  by (simp add: loopIteration_cases Let_def deliver_observed trackObserved_keeps acquire_keeps
      split: sum.split)

lemma runEventLoop_keeps:
  "Unknown \<notin> set (observedCategories s)
   \<Longrightarrow> Unknown \<notin> set (observedCategories (snd (runEventLoop e n s)))"
proof (induction n arbitrary: s)
  case 0
  then show ?case by simp
next
  case (Suc n)
  have "Unknown \<notin> set (observedCategories (loopIteration e s))"
    using Suc.prems by (rule loopIteration_keeps)
  then show ?case
    using Suc.IH [of "loopIteration e s"] Suc.prems loopBody_collapse [of e s]
    by (cases "fst (loopBody e s)") (auto split: prod.splits option.splits)
qed

lemma reachable_keeps: "reachable e s \<Longrightarrow> Unknown \<notin> set (observedCategories s)"
proof (induction rule: reachable.induct)
  case fresh
  show ?case by (simp add: newEvents_def)
next
  case (pull s options')
  then show ?case by (simp add: pullMessages_keeps)
next
  case (start s n limit)
  then show ?case by (simp add: startEventLoop_def runEventLoop_keeps)
qed (simp_all add: stopEventLoop_def clearObservedCategories_def onError_def)

section \<open>The claims about the session\<close>

text \<open>
  C7. \<open>pullMessages\<close> called while no subscription is active fails with the "no active
  subscription" error at once: no request is sent, and the session, its observed
  categories included, is left exactly as it was.
\<close>

theorem pullMessages_without_subscription:
  "subscription s = None \<Longrightarrow> pullMessages e options s = (Inl NoActiveSubscription, s)"
  by (simp add: pullMessages_def)

theorem pullMessages_without_subscription_witness:
  "subscription newEvents = None
   \<and> pullMessages offline \<lparr> timeout = None, messageLimitOpt = None \<rparr> newEvents
       = (Inl NoActiveSubscription, newEvents)"
proof -
  have h: "subscription newEvents = None" by (simp add: newEvents_def)
  show ?thesis using h pullMessages_without_subscription [OF h] by simp
qed

text \<open>
  C8. \<open>unsubscribe\<close> never raises. Without a subscription it returns with the session
  untouched; with one, whatever the outcome of the request, the subscription and the
  local deadline are cleared.
\<close>

theorem unsubscribe_never_raises:
  "fst (unsubscribe e s) = Inr ()
   \<and> (subscription s = None \<longrightarrow> snd (unsubscribe e s) = s)
   \<and> (subscription s \<noteq> None \<longrightarrow>
        subscription (snd (unsubscribe e s)) = None
        \<and> terminationTime' (snd (unsubscribe e s)) = None)"
  by (auto simp: unsubscribe_def request_def Let_def split: option.splits sum.splits)

theorem unsubscribe_never_raises_witness:
  "subscription newEvents = None
   \<and> snd (unsubscribe offline newEvents) = newEvents
   \<and> subscription subscribed \<noteq> None
   \<and> net offline (calls subscribed) = Inl (External (Some ''ECONNREFUSED''))
   \<and> fst (unsubscribe offline subscribed) = Inr ()
   \<and> subscription (snd (unsubscribe offline subscribed)) = None
   \<and> terminationTime' (snd (unsubscribe offline subscribed)) = None"
proof -
  have h1: "subscription newEvents = None" by (simp add: newEvents_def)
  have h2: "subscription subscribed \<noteq> None" by (simp add: subscribed_def)
  have h3: "net offline (calls subscribed) = Inl (External (Some ''ECONNREFUSED''))"
    by (simp add: offline_def)
  show ?thesis
    using h1 h2 h3 unsubscribe_never_raises [of offline newEvents]
      unsubscribe_never_raises [of offline subscribed]
    by simp
qed

text \<open>
  C2, as the claim states it, fails: a successful \<open>pullMessages\<close> called directly on a
  session whose deadline stands at 0 returns a current time of 0 and a termination time
  of 120000 while the clock reads 5000, and leaves the deadline where it was.
\<close>

theorem direct_pull_counterexample:
  "fst (pullMessages online \<lparr> timeout = None, messageLimitOpt = None \<rparr> subscribed)
     = Inr \<lparr> currentTime = Date 0, terminationTime = Date 120000,
             notificationMessage = [motionOn, relayMessage] \<rparr>
   \<and> clock online (ticks subscribed) = 5000
   \<and> terminationTime'
        (snd (pullMessages online \<lparr> timeout = None, messageLimitOpt = None \<rparr> subscribed))
       \<noteq> Some (Date (120000 - (0 - 5000)))"
  by (simp add: pullMessages_def subscribed_def newEvents_def online_def answer_def
      request_def toDateM_def split_def Let_def)

lemma calculateTerminationTime_formula:
  "currentTime r = Date c \<Longrightarrow> terminationTime r = Date t
   \<Longrightarrow> \<bar>t - (c - now)\<bar> \<le> 8640000000000000
   \<Longrightarrow> calculateTerminationTime now r = Date (t - (c - now))"
  by (simp add: calculateTerminationTime_def getTime_def minus'_def newDateOf_def newDate_def)

lemma loopIteration_deadline:
  assumes "acquire e s = (Inr result, s1)"
  shows "terminationTime' (loopIteration e s) =
     (case renew e (updateTerminationTime e result
                      (emitEvents (notificationMessage result) s1)) of
        (Inl err, s3) \<Rightarrow> Some (calculateTerminationTime (clock e (ticks s1)) result)
      | (Inr renewResult, s3) \<Rightarrow>
          Some (calculateTerminationTime (clock e (ticks s3)) renewResult))"
  using assms by (simp add: loopIteration_cases deliver_deadline)

text \<open>
  C2, amended. For a response whose current time and termination time are valid dates,
  the corrected deadline is \<open>terminationTime - (deviceCurrentTime - localNow)\<close>, as long
  as that lies within the range of a Date. It is recomputed, with the clock read at that
  moment, after every successful \<open>createPullPointSubscription\<close> and, inside the polling
  loop, after every successful pull (from the pull result) and after every successful
  renew (from the renew result). \<open>pullMessages\<close> and \<open>renew\<close> themselves, as a direct
  caller invokes them, leave the deadline as it is.
\<close>

theorem deadline_recomputed:
  "(currentTime r = Date c \<and> terminationTime r = Date t
      \<and> \<bar>t - (c - now)\<bar> \<le> 8640000000000000
      \<longrightarrow> calculateTerminationTime now r = Date (t - (c - now)))
   \<and> (createPullPointSubscription e options s = (Inr sub, s')
      \<longrightarrow> terminationTime' s' = Some (calculateTerminationTime (clock e (ticks s' - 1)) sub))
   \<and> (acquire e s = (Inr result, s1) \<longrightarrow>
        terminationTime' (loopIteration e s) =
          (case renew e (updateTerminationTime e result
                           (emitEvents (notificationMessage result) s1)) of
             (Inl err, s3) \<Rightarrow> Some (calculateTerminationTime (clock e (ticks s1)) result)
           | (Inr renewResult, s3) \<Rightarrow>
               Some (calculateTerminationTime (clock e (ticks s3)) renewResult)))
   \<and> terminationTime' (snd (pullMessages e options' s)) = terminationTime' s
   \<and> terminationTime' (snd (renew e s)) = terminationTime' s"
  using calculateTerminationTime_formula [of r c t now]
    create_success(2) [of e options s sub s'] loopIteration_deadline [of e s result s1]
  by simp


theorem deadline_recomputed_witness:
  "calculateTerminationTime 5000 \<lparr> currentTime = Date 0, terminationTime = Date 120000 \<rparr>
     = Date 125000
   \<and> terminationTime'
        (snd (createPullPointSubscription online \<lparr> initialTerminationTime = None \<rparr> newEvents))
       = Some (Date 125000)
   \<and> terminationTime' (loopIteration online polling) = Some (Date 185000)
   \<and> terminationTime' (loopIteration flaky polling) = Some (Date 125000)"
proof -
  let ?r = "\<lparr> currentTime = Date 0, terminationTime = Date 120000 \<rparr>"
  let ?sub = "\<lparr> currentTime = Date 0, terminationTime = Date 120000,
                subscriptionReference = \<lparr> address = ''http://camera/subscription'',
                                          referenceParameters = None \<rparr> \<rparr>"
  let ?res = "\<lparr> currentTime = Date 0, terminationTime = Date 120000,
                notificationMessage = [motionOn, relayMessage] \<rparr>"
  let ?c = "createPullPointSubscription online \<lparr> initialTerminationTime = None \<rparr> newEvents"
  have "\<bar>120000 - (0 - 5000)\<bar> \<le> (8640000000000000 :: int)" by simp
  then have f: "calculateTerminationTime 5000 ?r = Date 125000"
    using deadline_recomputed [where r = ?r and c = 0 and t = 120000 and now = 5000]
    by simp
  have "fst ?c = Inr ?sub" by code_simp
  then have "?c = (Inr ?sub, snd ?c)" by (metis prod.collapse)
  then have "terminationTime' (snd ?c)
      = Some (calculateTerminationTime (clock online (ticks (snd ?c) - 1)) ?sub)"
    by (rule deadline_recomputed [where e = online and s = newEvents and sub = ?sub
          and s' = "snd ?c" and options = "\<lparr> initialTerminationTime = None \<rparr>",
          THEN conjunct2, THEN conjunct1, THEN mp])
  also have "\<dots> = Some (Date 125000)" by code_simp
  finally have c: "terminationTime' (snd ?c) = Some (Date 125000)" .
  have "fst (acquire online polling) = Inr ?res" by code_simp
  then have "acquire online polling = (Inr ?res, snd (acquire online polling))"
    by (metis prod.collapse)
  then have "terminationTime' (loopIteration online polling) =
      (case renew online (updateTerminationTime online ?res
                            (emitEvents (notificationMessage ?res)
                               (snd (acquire online polling)))) of
         (Inl err, s3) \<Rightarrow>
           Some (calculateTerminationTime (clock online (ticks (snd (acquire online polling))))
                   ?res)
       | (Inr renewResult, s3) \<Rightarrow>
           Some (calculateTerminationTime (clock online (ticks s3)) renewResult))"
    by (rule deadline_recomputed [where e = online and s = polling and result = ?res
          and ?s1.0 = "snd (acquire online polling)",
          THEN conjunct2, THEN conjunct2, THEN conjunct1, THEN mp])
  also have "\<dots> = Some (Date 185000)" by code_simp
  finally have l1: "terminationTime' (loopIteration online polling) = Some (Date 185000)" .
  have "fst (acquire flaky polling) = Inr ?res" by code_simp
  then have "acquire flaky polling = (Inr ?res, snd (acquire flaky polling))"
    by (metis prod.collapse)
  then have "terminationTime' (loopIteration flaky polling) =
      (case renew flaky (updateTerminationTime flaky ?res
                            (emitEvents (notificationMessage ?res)
                               (snd (acquire flaky polling)))) of
         (Inl err, s3) \<Rightarrow>
           Some (calculateTerminationTime (clock flaky (ticks (snd (acquire flaky polling))))
                   ?res)
       | (Inr renewResult, s3) \<Rightarrow>
           Some (calculateTerminationTime (clock flaky (ticks s3)) renewResult))"
    by (rule deadline_recomputed [where e = flaky and s = polling and result = ?res
          and ?s1.0 = "snd (acquire flaky polling)",
          THEN conjunct2, THEN conjunct2, THEN conjunct1, THEN mp])
  also have "\<dots> = Some (Date 125000)" by code_simp
  finally have l2: "terminationTime' (loopIteration flaky polling) = Some (Date 125000)" .
  from f c l1 l2 show ?thesis by simp
qed

lemma retryable_iteration:
  assumes "acquire e s = (Inl err, s1)" and "isRetryableError err"
    and "errorListeners s \<noteq> 0"
  shows "fst (loopBody e s) = None"
    and "effects (loopIteration e s)
           = effects s1 @ [Emit (ErrorSignal err), Sleep (reconnectMs s1)]"
    and "reconnectMs (loopIteration e s) =
           (if reconnectMs s1 < 120000 then min (reconnectMs s1 * (3 / 2)) 120000
            else reconnectMs s1)"
    and "subscription (loopIteration e s) = subscription s1"
  using assms
  by (simp_all add: loopIteration_cases loopBody_escape Let_def nextDelay_def
      MAX_RECONNECT_MS_def)

lemma successful_iteration:
  assumes "acquire e s = (Inr result, s1)"
  shows "reconnectMs s1 = 10" and "reconnectMs (loopIteration e s) = 10"
  using assms acquire_success(2) [OF assms] by (simp_all add: loopIteration_cases)

lemma created_resets:
  assumes "fst (needsSubscription e s)"
    and "fst (createPullPointSubscription e \<lparr> initialTerminationTime = None \<rparr>
                (snd (needsSubscription e s))) = Inr sub"
  shows "reconnectMs (snd (acquire e s)) = 10"
  using assms by (simp add: acquire_cases Let_def split: sum.split)

lemma refused_sleeps:
  assumes "shouldPoll s" and "subscription s = None" and "errorListeners s \<noteq> 0"
    and "reconnectMs s = 10"
    and "\<forall>k<n. \<exists>code\<in>set RETRY_ERROR_CODES. net e (calls s + k) = Inl (External (Some code))"
  shows "sleepsOf (effects (snd (runEventLoop e n s))) =
           sleepsOf (effects s) @ map (\<lambda>k. min (10 * (3 / 2) ^ k) 120000) [0..<n]"
  using refused_loop [OF assms(1,2,3,5)] assms(4) by (simp add: nextDelay_closed)

text \<open>
  With a listener attached to the \<open>error\<close> signal, the retry delay behaves as the
  specification describes it. The delay of a fresh session is 10 ms. A failure is
  retryable when it carries one of the five network codes. An iteration that fails with
  a retryable error emits the error, sleeps for the delay as it stands, then grows it
  by the factor 1.5 up to the ceiling of 120000 ms, and leaves the subscription alone. A
  run of \<open>n\<close> refused iterations from the floor sleeps 10, 15, 22.5, ..., each the
  minimum of \<open>10 * 1.5 ^ k\<close> and 120000. A successful pull, and a successful creation of
  the subscription, each put the delay back to 10 ms.
\<close>

lemma backoff_when_heard:
  "reconnectMs newEvents = 10
   \<and> isRetryableError (External (Some code)) =
       (code \<in> {''ECONNREFUSED'', ''ECONNRESET'', ''ETIMEDOUT'', ''ENETUNREACH'',
                 ''EHOSTUNREACH''})
   \<and> (errorListeners s \<noteq> 0 \<and> acquire e s = (Inl err, s1) \<and> isRetryableError err \<longrightarrow>
        fst (loopBody e s) = None
        \<and> effects (loopIteration e s)
            = effects s1 @ [Emit (ErrorSignal err), Sleep (reconnectMs s1)]
        \<and> reconnectMs (loopIteration e s) =
            (if reconnectMs s1 < 120000 then min (reconnectMs s1 * (3 / 2)) 120000
             else reconnectMs s1)
        \<and> subscription (loopIteration e s) = subscription s1)
   \<and> (errorListeners s \<noteq> 0 \<and> shouldPoll s \<and> subscription s = None \<and> reconnectMs s = 10
        \<and> (\<forall>k<n. \<exists>code\<in>set RETRY_ERROR_CODES.
               net e (calls s + k) = Inl (External (Some code)))
      \<longrightarrow> sleepsOf (effects (snd (runEventLoop e n s))) =
            sleepsOf (effects s) @ map (\<lambda>k. min (10 * (3 / 2) ^ k) 120000) [0..<n])
   \<and> (acquire e s = (Inr result, s1)
      \<longrightarrow> reconnectMs s1 = 10 \<and> reconnectMs (loopIteration e s) = 10)
   \<and> (fst (needsSubscription e s)
        \<and> fst (createPullPointSubscription e \<lparr> initialTerminationTime = None \<rparr>
                  (snd (needsSubscription e s))) = Inr sub
      \<longrightarrow> reconnectMs (snd (acquire e s)) = 10)"
proof (intro conjI impI)
  show "reconnectMs newEvents = 10" by (simp add: newEvents_def)
  show "isRetryableError (External (Some code)) =
       (code \<in> {''ECONNREFUSED'', ''ECONNRESET'', ''ETIMEDOUT'', ''ENETUNREACH'',
                 ''EHOSTUNREACH''})"
    by (simp add: isRetryableError_def RETRY_ERROR_CODES_def)
next
  assume a: "errorListeners s \<noteq> 0 \<and> acquire e s = (Inl err, s1) \<and> isRetryableError err"
  then show "fst (loopBody e s) = None"
    using retryable_iteration(1) by blast
  from a show "effects (loopIteration e s)
          = effects s1 @ [Emit (ErrorSignal err), Sleep (reconnectMs s1)]"
    using retryable_iteration(2) by blast
  from a show "reconnectMs (loopIteration e s) =
            (if reconnectMs s1 < 120000 then min (reconnectMs s1 * (3 / 2)) 120000
             else reconnectMs s1)"
    using retryable_iteration(3) by blast
  from a show "subscription (loopIteration e s) = subscription s1"
    using retryable_iteration(4) by blast
next
  assume "errorListeners s \<noteq> 0 \<and> shouldPoll s \<and> subscription s = None
        \<and> reconnectMs s = 10
        \<and> (\<forall>k<n. \<exists>code\<in>set RETRY_ERROR_CODES.
               net e (calls s + k) = Inl (External (Some code)))"
  then show "sleepsOf (effects (snd (runEventLoop e n s))) =
            sleepsOf (effects s) @ map (\<lambda>k. min (10 * (3 / 2) ^ k) 120000) [0..<n]"
    using refused_sleeps by blast
next
  assume a: "acquire e s = (Inr result, s1)"
  then show "reconnectMs s1 = 10" by (rule successful_iteration(1))
  from a show "reconnectMs (loopIteration e s) = 10" by (rule successful_iteration(2))
next
  assume "fst (needsSubscription e s)
        \<and> fst (createPullPointSubscription e \<lparr> initialTerminationTime = None \<rparr>
                  (snd (needsSubscription e s))) = Inr sub"
  then show "reconnectMs (snd (acquire e s)) = 10"
    using created_resets by blast
qed

lemma backoff_when_heard_example:
  "errorListeners listening \<noteq> 0
   \<and> fst (runEventLoop offline 3 listening) = None
   \<and> sleepsOf (effects (snd (runEventLoop offline 3 listening))) = [10, 15, 45 / 2]
   \<and> reconnectMs (snd (runEventLoop offline 3 listening)) = 135 / 4
   \<and> reconnectMs (loopIteration online backedOff) = 10"
  by code_simp

text \<open>
  Without such a listener the failure does not reach the retry policy at all: the error
  signal throws, the failure escapes the body of the loop, and the session is left as the
  failed step left it.
\<close>

lemma unheard_error_escapes:
  assumes "errorListeners s = 0" and "acquire e s = (Inl err, s1)"
  shows "loopBody e s = (Some err, s1)"
    and "runEventLoop e (Suc n) s = (if shouldPoll s then (Some err, s1) else (None, s))"
  using assms by (simp_all add: loopBody_cases)

text \<open>
  C4. The claim describes the loop as intended, and the code misses it where nothing
  listens to the \<open>error\<close> signal, as in the usage example of the class. A fresh session
  is started in a world that refuses every request with \<open>ECONNREFUSED\<close>, a retryable
  failure. The first iteration sends the request to create the subscription and lets
  the failure escape; the loop ends there, however many iterations it is given. It has
  not slept, the delay still stands at 10 ms and has not grown, and \<open>shouldPoll\<close> is
  still set, so that starting the loop again does nothing.
\<close>

theorem unheard_error_ends_loop:
  "errorListeners polling = 0
   \<and> isRetryableError (External (Some ''ECONNREFUSED''))
   \<and> fst (acquire offline polling) = Inl (External (Some ''ECONNREFUSED''))
   \<and> fst (runEventLoop offline 3 polling) = Some (External (Some ''ECONNREFUSED''))
   \<and> effects (snd (runEventLoop offline 3 polling))
       = [Request (CreatePullPointSubscription ''PT2M'') None None]
   \<and> sleepsOf (effects (snd (runEventLoop offline 3 polling))) = []
   \<and> reconnectMs (snd (runEventLoop offline 3 polling)) = 10
   \<and> shouldPoll (snd (runEventLoop offline 3 polling))
   \<and> startEventLoop offline 3 None (snd (runEventLoop offline 3 polling))
       = snd (runEventLoop offline 3 polling)"
  by code_simp

lemma iteration_effects:
  assumes "acquire e s = (Inr result, s1)"
  shows "\<exists>sub post. subscription s1 = Some sub
           \<and> effects (loopIteration e s) =
               effects s1 @ map (\<lambda>msg. Emit (Event msg)) (notificationMessage result)
                 @ Now (clock e (ticks s1))
                 # Request (Renew DEFAULT_TERMINATION_TIME)
                     (Some (address (subscriptionReference sub))) (subscriptionIdOf sub)
                 # post
           \<and> eventsOf post = []"
proof -
  from assms obtain sub where sub: "subscription s1 = Some sub"
    using acquire_success(1) by blast
  from deliver_effects [OF sub, of e result] obtain post where
    "effects (deliver e result s1) =
       effects s1 @ map (\<lambda>msg. Emit (Event msg)) (notificationMessage result)
         @ Now (clock e (ticks s1))
         # Request (Renew DEFAULT_TERMINATION_TIME)
             (Some (address (subscriptionReference sub))) (subscriptionIdOf sub)
         # post" and "eventsOf post = []"
    by blast
  moreover from assms have "loopIteration e s = deliver e result s1"
    by (simp add: loopIteration_cases)
  ultimately show ?thesis using sub by auto
qed

lemma iteration_events:
  assumes "acquire e s = (Inr result, s1)"
  shows "eventsOf (effects s1) = eventsOf (effects s)"
    and "eventsOf (effects (loopIteration e s)) = eventsOf (effects s) @ notificationMessage result"
proof -
  from assms have "s1 = snd (acquire e s)" by simp
  then show s1: "eventsOf (effects s1) = eventsOf (effects s)" by simp
  from iteration_effects [OF assms] obtain sub post where
    "effects (loopIteration e s) =
               effects s1 @ map (\<lambda>msg. Emit (Event msg)) (notificationMessage result)
                 @ Now (clock e (ticks s1))
                 # Request (Renew DEFAULT_TERMINATION_TIME)
                     (Some (address (subscriptionReference sub))) (subscriptionIdOf sub)
                 # post" and "eventsOf post = []"
    by blast
  then show "eventsOf (effects (loopIteration e s))
               = eventsOf (effects s) @ notificationMessage result"
    using s1 by simp
qed

text \<open>
  C6. In a loop iteration whose pull returns \<open>N\<close> notification messages, the loop emits
  exactly \<open>N\<close> event signals, one per message and in the order of the pull result. They
  come after everything the iteration did up to the pull and before the clock reading
  that recomputes the deadline and the renew request that follows it; nothing else in
  the iteration emits an event, and the deadline is untouched while the events go out.
\<close>

theorem events_in_pull_order:
  "acquire e s = (Inr result, s1) \<longrightarrow>
     (\<exists>sub post. subscription s1 = Some sub
        \<and> effects (loopIteration e s) =
            effects s1 @ map (\<lambda>msg. Emit (Event msg)) (notificationMessage result)
              @ Now (clock e (ticks s1))
              # Request (Renew DEFAULT_TERMINATION_TIME)
                  (Some (address (subscriptionReference sub))) (subscriptionIdOf sub)
              # post
        \<and> eventsOf post = [])
     \<and> eventsOf (effects s1) = eventsOf (effects s)
     \<and> eventsOf (effects (loopIteration e s)) = eventsOf (effects s) @ notificationMessage result
     \<and> length (eventsOf (effects (loopIteration e s)))
         = length (eventsOf (effects s)) + length (notificationMessage result)
     \<and> terminationTime' (emitEvents (notificationMessage result) s1) = terminationTime' s1"
proof
  assume a: "acquire e s = (Inr result, s1)"
  show "(\<exists>sub post. subscription s1 = Some sub
        \<and> effects (loopIteration e s) =
            effects s1 @ map (\<lambda>msg. Emit (Event msg)) (notificationMessage result)
              @ Now (clock e (ticks s1))
              # Request (Renew DEFAULT_TERMINATION_TIME)
                  (Some (address (subscriptionReference sub))) (subscriptionIdOf sub)
              # post
        \<and> eventsOf post = [])
     \<and> eventsOf (effects s1) = eventsOf (effects s)
     \<and> eventsOf (effects (loopIteration e s)) = eventsOf (effects s) @ notificationMessage result
     \<and> length (eventsOf (effects (loopIteration e s)))
         = length (eventsOf (effects s)) + length (notificationMessage result)
     \<and> terminationTime' (emitEvents (notificationMessage result) s1) = terminationTime' s1"
    using iteration_effects [OF a] iteration_events [OF a] by simp
qed

theorem events_in_pull_order_witness:
  "fst (acquire online polling)
     = Inr \<lparr> currentTime = Date 0, terminationTime = Date 120000,
             notificationMessage = [motionOn, relayMessage] \<rparr>
   \<and> eventsOf (effects (loopIteration online polling)) = [motionOn, relayMessage]
   \<and> length (eventsOf (effects (loopIteration online polling))) = 2"
proof -
  let ?res = "\<lparr> currentTime = Date 0, terminationTime = Date 120000,
                notificationMessage = [motionOn, relayMessage] \<rparr>"
  have a: "fst (acquire online polling) = Inr ?res" by code_simp
  then have "acquire online polling = (Inr ?res, snd (acquire online polling))"
    by (metis prod.collapse)
  then have "eventsOf (effects (loopIteration online polling))
               = eventsOf (effects polling) @ notificationMessage ?res"
    using events_in_pull_order [where e = online and s = polling and result = ?res
        and ?s1.0 = "snd (acquire online polling)"]
    by blast
  moreover have "eventsOf (effects polling) = []" by (simp add: polling_def newEvents_def)
  ultimately have "eventsOf (effects (loopIteration online polling)) = [motionOn, relayMessage]"
    by simp
  with a show ?thesis by simp
qed

text \<open>
  C10. The category unknown is never among the observed categories: no session that the
  operations produce from a fresh one holds it, so \<open>getObservedCategories\<close> never returns
  it. In \<open>pullMessages\<close> and in the loop alike, messages without a topic or with a topic
  classified as unknown leave the observed categories as they are, and either keeps
  unknown out of a set that did not hold it.
\<close>

theorem unknown_never_observed:
  "(reachable e s \<longrightarrow> Unknown \<notin> set (getObservedCategories s))
   \<and> ((\<forall>msg\<in>set msgs. topic msg = None
                        \<or> (\<exists>t. topic msg = Some t \<and> categorizeEvent t = Unknown))
      \<longrightarrow> trackObserved msgs (observedCategories s) = observedCategories s
          \<and> observedCategories (emitEvents msgs s) = observedCategories s)
   \<and> (Unknown \<notin> set (observedCategories s)
      \<longrightarrow> Unknown \<notin> set (observedCategories (snd (pullMessages e options s)))
          \<and> Unknown \<notin> set (observedCategories (loopIteration e s)))"
  using reachable_keeps [of e s] trackObserved_unknown [of msgs "observedCategories s"]
    pullMessages_keeps [of s e options] loopIteration_keeps [of s e]
  by (simp add: getObservedCategories_def emitEvents_observed)

theorem unknown_never_observed_witness:
  "reachable online (startEventLoop online 1 None newEvents)
   \<and> getObservedCategories (startEventLoop online 1 None newEvents) = [Motion, Relay]
   \<and> Unknown \<notin> set (getObservedCategories (startEventLoop online 1 None newEvents))
   \<and> categorizeEvent ''tns1:Monitoring/Heartbeat'' = Unknown
   \<and> observedCategories (emitEvents [noTopic, heartbeat] newEvents) = []
   \<and> Unknown \<notin> set (observedCategories (loopIteration online polling))"
proof -
  let ?s = "startEventLoop online 1 None newEvents"
  have r: "reachable online ?s" by (intro reachable.start reachable.fresh)
  then have u: "Unknown \<notin> set (getObservedCategories ?s)"
    using unknown_never_observed [where e = online and s = ?s] by blast
  have g: "getObservedCategories ?s = [Motion, Relay]" by code_simp
  have h: "categorizeEvent ''tns1:Monitoring/Heartbeat'' = Unknown" by code_simp
  then have "\<forall>msg\<in>set [noTopic, heartbeat].
      topic msg = None \<or> (\<exists>t. topic msg = Some t \<and> categorizeEvent t = Unknown)"
    by (simp add: noTopic_def heartbeat_def)
  then have "observedCategories (emitEvents [noTopic, heartbeat] newEvents)
               = observedCategories newEvents"
    using unknown_never_observed [where msgs = "[noTopic, heartbeat]" and s = newEvents]
    by blast
  then have m: "observedCategories (emitEvents [noTopic, heartbeat] newEvents) = []"
    by (simp add: newEvents_def)
  have "Unknown \<notin> set (observedCategories polling)" by (simp add: polling_def newEvents_def)
  then have l: "Unknown \<notin> set (observedCategories (loopIteration online polling))"
    using unknown_never_observed [where e = online and s = polling] by blast
  from r u g h m l show ?thesis by blast
qed

end
